theory Spec2Isabelle
  imports Complex_Main
begin

section \<open>Python values, exceptions and string helpers\<close>

text \<open>
  The bot of \<^verbatim>\<open>llmBot.py\<close> is dynamically typed: \<^verbatim>\<open>take_turn\<close> returns a tuple on one
  path and a string on the other, and \<^verbatim>\<open>play_game\<close> stores whatever comes back in
  \<^verbatim>\<open>current_topic\<close>. The values that can flow there are strings, integers and tuples.
\<close>

datatype pyval = PStr string | PInt int | PTuple "pyval list"

text \<open>
  Every \<^verbatim>\<open>raise\<close> is a value. \<open>ServiceError\<close> is whatever an external collaborator
  (Wikipedia, the search helper, the language-model endpoint) raises.
\<close>

datatype error =
    AssertionError string
  | IndexError
  | KeyError string
  | AttributeError
  | ServiceError string

definition nl :: string where
  "nl = [CHR 0x0A]"

text \<open>\<^verbatim>\<open>s.startswith(p)\<close>\<close>

definition startswith :: "string \<Rightarrow> string \<Rightarrow> bool" where
  "startswith s p = (take (length p) s = p)"

text \<open>\<^verbatim>\<open>s.split(sep)\<close> for a one-character separator: always at least one piece.\<close>

fun str_split :: "char \<Rightarrow> string \<Rightarrow> string list" where
  "str_split sep [] = [[]]"
| "str_split sep (c # cs) =
     (if c = sep then [] # str_split sep cs
      else (case str_split sep cs of
              w # ws \<Rightarrow> (c # w) # ws
            | [] \<Rightarrow> [[c]]))"

text \<open>\<^verbatim>\<open>xs[i]\<close> for the literal indices the source uses (0 and 1): out of range raises.\<close>

definition py_index :: "'a list \<Rightarrow> nat \<Rightarrow> error + 'a" where
  "py_index xs i = (if i < length xs then Inr (xs ! i) else Inl IndexError)"

text \<open>\<^verbatim>\<open>sep.join(xs)\<close>\<close>

fun join :: "string \<Rightarrow> string list \<Rightarrow> string" where
  "join sep [] = []"
| "join sep [x] = x"
| "join sep (x # y # ys) = x @ sep @ join sep (y # ys)"

text \<open>\<^verbatim>\<open>s.replace('_', ' ')\<close>\<close>

definition replace_underscores :: "string \<Rightarrow> string" where
  "replace_underscores s = map (\<lambda>c. if c = CHR ''_'' then CHR '' '' else c) s"

text \<open>
  \<^verbatim>\<open>v.replace('_', ' ')\<close> on a value of unknown type: only \<^verbatim>\<open>str\<close> has the method;
  on a tuple or an int the attribute lookup raises.
\<close>

fun py_replace :: "pyval \<Rightarrow> error + string" where
  "py_replace (PStr s) = Inr (replace_underscores s)"
| "py_replace (PInt i) = Inl AttributeError"
| "py_replace (PTuple vs) = Inl AttributeError"

text \<open>\<^verbatim>\<open>str(n)\<close> for integers.\<close>

function str_nat :: "nat \<Rightarrow> string" where
  "str_nat n =
     (if n < 10 then [''0123456789'' ! n]
      else str_nat (n div 10) @ [''0123456789'' ! (n mod 10)])"
  by pat_completeness auto
termination
  by (relation "measure id") auto

definition str_int :: "int \<Rightarrow> string" where
  "str_int i = (if i < 0 then ''-'' @ str_nat (nat (- i)) else str_nat (nat i))"

text \<open>
  \<^verbatim>\<open>repr(v)\<close> and \<^verbatim>\<open>str(v)\<close>. The quoting of a string by \<^verbatim>\<open>repr\<close> is the interpreter's
  and is taken as the parameter \<open>r\<close>; a one-element tuple prints with a trailing comma.
\<close>

fun py_repr :: "(string \<Rightarrow> string) \<Rightarrow> pyval \<Rightarrow> string" where
  "py_repr r (PStr s) = r s"
| "py_repr r (PInt i) = str_int i"
| "py_repr r (PTuple vs) =
     ''('' @ join '', '' (map (py_repr r) vs) @ (if length vs = 1 then '',)'' else '')'')"

fun py_str :: "(string \<Rightarrow> string) \<Rightarrow> pyval \<Rightarrow> string" where
  "py_str r (PStr s) = s"
| "py_str r v = py_repr r v"

section \<open>External collaborators\<close>

text \<open>
  A Wikipedia page object as the helpers of \<^verbatim>\<open>funcs\<close> see it: \<^verbatim>\<open>get_page_summary(page)\<close>
  and \<^verbatim>\<open>validate_pages(page)\<close> (the titles of the valid linked pages, in the service's
  order). Either call may raise.
\<close>

record page =
  get_page_summary :: "error + string"
  validate_pages :: "error + string list"

text \<open>The client object \<^verbatim>\<open>ChatNVIDIA(model=..., api_key=..., temperature=...)\<close>.\<close>

record chat_nvidia =
  model :: string
  api_key :: string
  temperature :: rat

text \<open>
  Everything the bot calls and does not define, as parameters:
  \<^item> \<open>getpass\<close>: what the user types at the prompt;
  \<^item> \<open>search_wiki\<close>, \<open>get_random_wiki_page\<close> (from \<^verbatim>\<open>funcs\<close>): the resolved title, or
    a fault; a random page may differ from call to call, so it gets the number of
    earlier calls;
  \<^item> \<open>wiki_page\<close>: \<^verbatim>\<open>wiki_wiki.page(title)\<close>, for whatever value is passed as title;
  \<^item> \<open>invoke\<close>: \<^verbatim>\<open>llm.invoke(prompt).content\<close>; the reply may depend on the client's
    configuration and on the prompts sent before;
  \<^item> \<open>get_close_matches\<close>: \<^verbatim>\<open>difflib.get_close_matches(word, possibilities, n=1)\<close>;
  \<^item> \<open>repr\<close>: the interpreter's \<^verbatim>\<open>repr\<close> on strings.
\<close>

record services =
  getpass :: "string \<Rightarrow> string"
  search_wiki :: "string \<Rightarrow> error + string"
  get_random_wiki_page :: "nat \<Rightarrow> error + string"
  wiki_page :: "pyval \<Rightarrow> error + page"
  invoke :: "chat_nvidia \<Rightarrow> string list \<Rightarrow> string \<Rightarrow> error + string"
  get_close_matches :: "string \<Rightarrow> string list \<Rightarrow> string list"
  repr :: "string \<Rightarrow> string"

section \<open>The bot and the process state\<close>

text \<open>
  The attributes of a \<^verbatim>\<open>WikiGameLLMBot\<close>. \<open>current_summary\<close> is assigned by
  \<^verbatim>\<open>take_turn\<close> only, so it is absent (\<open>None\<close>) after construction. \<open>memory\<close> is the
  \<^verbatim>\<open>ai_prefix\<close> of the conversation buffer, which no method reads.
\<close>

record bot =
  llm :: chat_nvidia
  memory :: string
  game_log :: "string \<rightharpoonup> pyval list"
  printouts :: "string list list"
  start_topic :: string
  target_topic :: string
  current_summary :: "string option"

text \<open>
  State outside the object: \<^verbatim>\<open>os.environ\<close>, the number of random pages drawn so far, and
  the prompts sent to the language model so far (one entry per \<^verbatim>\<open>llm.invoke\<close>).
\<close>

record world =
  environ :: "string \<rightharpoonup> string"
  random_calls :: nat
  llm_log :: "string list"

section \<open>\<^verbatim>\<open>take_turn\<close>\<close>

text \<open>
  The candidate list, lines 169-170:
  \<^verbatim>\<open>pages = [page for page in validate_pages(current_page) if page not in visited]\<close>,
  \<^verbatim>\<open>pages = pages[:25]\<close>.
\<close>

definition pages :: "string list \<Rightarrow> pyval list \<Rightarrow> string list" where
  "pages links visited = take 25 (filter (\<lambda>page. PStr page \<notin> set visited) links)"

text \<open>The prompt, lines 175-191.\<close>

definition template :: "string \<Rightarrow> string \<Rightarrow> string \<Rightarrow> string \<Rightarrow> string \<Rightarrow> string" where
  "template source target1 current links target2 =
     ''You must are playing the Wikipedia Game where you must find a chain of'' @ nl @
     ''Wikipedia pages that connect a source topic to a target topic. Your source topic was '' @
     source @ nl @
     ''and your target topic is '' @ target1 @
     ''. You are currently at the topic of '' @ current @ '', and you must select'' @ nl @
     ''a new topic from the linked pages here that will make it likely for you to connect to the target topic'' @ nl @
     ''soon. Your possible choices are:'' @ nl @ nl @
     links @ nl @ nl @
     ''Select the topic above most likely to route you to '' @ target2 @
     '' as fast as possible. Format your output as:'' @ nl @
     ''Next topic=<topic here>'' @ nl"

text \<open>
  Lines 186-191: \<^verbatim>\<open>template.format(source=..., target1=..., current=current_topic,
  links=nl.join(pages), target2=...)\<close>; \<^verbatim>\<open>format\<close> inserts \<^verbatim>\<open>str(current_topic)\<close>.
\<close>

definition format_template :: "services \<Rightarrow> bot \<Rightarrow> pyval \<Rightarrow> string list \<Rightarrow> string" where
  "format_template sv self current_topic ps =
     template (start_topic self) (target_topic self)
       (py_str (repr sv) current_topic) (join nl ps) (target_topic self)"

text \<open>Line 198: \<^verbatim>\<open>proposedPage = response.content.split('=')[1]\<close>.\<close>

definition proposedPage :: "string \<Rightarrow> error + string" where
  "proposedPage content = py_index (str_split CHR ''='' content) 1"

text \<open>Line 202: \<^verbatim>\<open>most_similar = difflib.get_close_matches(proposedPage, pages, n=1)[0]\<close>.\<close>

definition most_similar :: "services \<Rightarrow> string \<Rightarrow> string list \<Rightarrow> error + string" where
  "most_similar sv proposed ps = py_index (get_close_matches sv proposed ps) 0"

text \<open>
  \<^verbatim>\<open>take_turn(self, current_topic, visited)\<close>. The result is the returned value or the
  exception, with the bot (\<^verbatim>\<open>self.current_summary\<close> is assigned) and the world (a prompt
  may have been sent) as they are when the call ends. The \<^verbatim>\<open>print\<close>s are not modelled.
\<close>

definition take_turn ::
  "services \<Rightarrow> pyval \<Rightarrow> pyval list \<Rightarrow> bot \<Rightarrow> world \<Rightarrow> (error + pyval) \<times> bot \<times> world" where
  "take_turn sv current_topic visited self w =
     (case wiki_page sv current_topic of
        Inl e \<Rightarrow> (Inl e, self, w)
      | Inr current_page \<Rightarrow>
     (case get_page_summary current_page of
        Inl e \<Rightarrow> (Inl e, self, w)
      | Inr summary \<Rightarrow>
     (let self1 = self\<lparr>current_summary := Some summary\<rparr> in
     (case validate_pages current_page of
        Inl e \<Rightarrow> (Inl e, self1, w)
      | Inr links \<Rightarrow>
     (let ps = pages links visited in
      if target_topic self1 \<in> set ps
      then (Inr (PTuple [PStr (target_topic self1), PInt 1]), self1, w)
      else
     (let prompt = format_template sv self1 current_topic ps;
          w1 = w\<lparr>llm_log := llm_log w @ [prompt]\<rparr> in
     (case invoke sv (llm self1) (llm_log w) prompt of
        Inl e \<Rightarrow> (Inl e, self1, w1)
      | Inr content \<Rightarrow>
     (case proposedPage content of
        Inl e \<Rightarrow> (Inl e, self1, w1)
      | Inr proposed \<Rightarrow>
     (case most_similar sv proposed ps of
        Inl e \<Rightarrow> (Inl e, self1, w1)
      | Inr chosen \<Rightarrow> (Inr (PStr chosen), self1, w1))))))))))"

section \<open>\<^verbatim>\<open>__init__\<close> and \<^verbatim>\<open>get_topics\<close>\<close>

text \<open>
  Lines 74-79: the API key is taken from the environment when it has the prefix, and asked
  for otherwise; a typed key without the prefix fails the assertion.
\<close>

definition nvidia_api_key :: "services \<Rightarrow> world \<Rightarrow> (error + string) \<times> world" where
  "nvidia_api_key sv w =
     (let current = (case environ w ''NVIDIA_API_KEY'' of None \<Rightarrow> [] | Some k \<Rightarrow> k) in
      if \<not> startswith current ''nvapi-'' then
        (let typed = getpass sv ''Enter your NVIDIA API key: '' in
         if startswith typed ''nvapi-''
         then (Inr typed, w\<lparr>environ := (environ w)(''NVIDIA_API_KEY'' \<mapsto> typed)\<rparr>)
         else (Inl (AssertionError (take 5 typed @ ''... is not a valid key'')), w))
      else (Inr current, w))"

text \<open>
  One branch of \<^verbatim>\<open>get_topics\<close>: \<^verbatim>\<open>if topic: search_wiki(topic) else:
  get_random_wiki_page(wiki_wiki)\<close>. \<^verbatim>\<open>None\<close> and the empty string are both falsy.
\<close>

definition resolve_topic :: "services \<Rightarrow> string option \<Rightarrow> world \<Rightarrow> (error + string) \<times> world" where
  "resolve_topic sv topic w =
     (case topic of
        Some (c # cs) \<Rightarrow> (search_wiki sv (c # cs), w)
      | _ \<Rightarrow> (get_random_wiki_page sv (random_calls w),
               w\<lparr>random_calls := Suc (random_calls w)\<rparr>))"

text \<open>
  \<^verbatim>\<open>get_topics\<close> assigns \<^verbatim>\<open>self.start_topic\<close>, then \<^verbatim>\<open>self.target_topic\<close>; here it
  returns the two values and the constructor stores them.
\<close>

definition get_topics ::
  "services \<Rightarrow> string option \<Rightarrow> string option \<Rightarrow> world \<Rightarrow> (error + string \<times> string) \<times> world" where
  "get_topics sv start target w =
     (case resolve_topic sv start w of
        (Inl e, w1) \<Rightarrow> (Inl e, w1)
      | (Inr s, w1) \<Rightarrow>
         (case resolve_topic sv target w1 of
            (Inl e, w2) \<Rightarrow> (Inl e, w2)
          | (Inr t, w2) \<Rightarrow> (Inr (s, t), w2)))"

text \<open>Lines 90-96: the log is a dictionary of five lists, all empty.\<close>

definition new_game_log :: "string \<rightharpoonup> pyval list" where
  "new_game_log =
     [''starting_topic'' \<mapsto> [], ''target_topic'' \<mapsto> [], ''turn'' \<mapsto> [],
      ''current_topic'' \<mapsto> [], ''current_summary'' \<mapsto> []]"

definition same_topics_message :: string where
  "same_topics_message = ''Please enter different start and target topics.''"

text \<open>
  \<^verbatim>\<open>__init__(self, wiki_wiki, start_topic, target_topic, model_name, temperature)\<close>: the
  constructed bot, or the exception that leaves no bot. The last statement fetches the
  target's page object and drops it.
\<close>

definition init ::
  "services \<Rightarrow> string option \<Rightarrow> string option \<Rightarrow> string \<Rightarrow> rat \<Rightarrow> world \<Rightarrow> (error + bot) \<times> world" where
  "init sv start target model_name temp w =
     (case nvidia_api_key sv w of
        (Inl e, w1) \<Rightarrow> (Inl e, w1)
      | (Inr key, w1) \<Rightarrow>
     (case get_topics sv start target w1 of
        (Inl e, w2) \<Rightarrow> (Inl e, w2)
      | (Inr (s, t), w2) \<Rightarrow>
         if s \<noteq> t then
           (case wiki_page sv (PStr t) of
              Inl e \<Rightarrow> (Inl e, w2)
            | Inr target_page \<Rightarrow>
                (Inr \<lparr>llm = \<lparr>model = model_name, api_key = key, temperature = temp\<rparr>,
                      memory = ''System'',
                      game_log = new_game_log,
                      printouts = [],
                      start_topic = s,
                      target_topic = t,
                      current_summary = None\<rparr>, w2))
         else (Inl (AssertionError same_topics_message), w2)))"

section \<open>\<^verbatim>\<open>log_turn\<close> and \<^verbatim>\<open>play_game\<close>\<close>

text \<open>
  \<^verbatim>\<open>for key, val in turn_dict.items(): self.game_log[key].append(val)\<close>: the items in
  the dictionary's order; a key the log does not have raises, after the earlier appends.
\<close>

fun log_turn :: "(string \<times> pyval) list \<Rightarrow> bot \<Rightarrow> (error + unit) \<times> bot" where
  "log_turn [] self = (Inr (), self)"
| "log_turn ((key, val) # rest) self =
     (case game_log self key of
        None \<Rightarrow> (Inl (KeyError key), self)
      | Some entries \<Rightarrow>
          log_turn rest (self\<lparr>game_log := (game_log self)(key \<mapsto> entries @ [val])\<rparr>))"

text \<open>The local variables of \<^verbatim>\<open>play_game\<close>; the set \<^verbatim>\<open>visited\<close> is kept as a list
  without repetitions, and \<^verbatim>\<open>list(visited)\<close> is that list.\<close>

record locals =
  turn_num :: int
  current_topic :: pyval
  visited :: "pyval list"

text \<open>Lines 255-262, the block printed when \<^verbatim>\<open>verbose\<close> is set.\<close>

definition progress_block ::
  "int \<Rightarrow> string \<Rightarrow> pyval \<Rightarrow> pyval \<Rightarrow> string \<Rightarrow> error + string list" where
  "progress_block n start current next_topic target =
     (case py_replace current of
        Inl e \<Rightarrow> Inl e
      | Inr current_text \<Rightarrow>
     (case py_replace next_topic of
        Inl e \<Rightarrow> Inl e
      | Inr next_text \<Rightarrow>
          Inr [replicate 50 CHR ''-'',
               ''Turn: '' @ str_int n,
               ''Start topic: '' @ replace_underscores start,
               ''Current topic: '' @ current_text,
               ''Next topic: '' @ next_text,
               ''Target topic: '' @ replace_underscores target]))"

text \<open>Lines 244-252: the dictionary handed to \<^verbatim>\<open>log_turn\<close>, in its own order.\<close>

definition turn_dict :: "bot \<Rightarrow> locals \<Rightarrow> string \<Rightarrow> (string \<times> pyval) list" where
  "turn_dict self l summary =
     [(''starting_topic'', PStr (start_topic self)),
      (''target_topic'', PStr (start_topic self)),
      (''turn'', PInt (turn_num l)),
      (''current_topic'', current_topic l),
      (''current_summary'', PStr summary)]"

text \<open>
  One pass through the body of \<^verbatim>\<open>while True\<close> (lines 232-274): the locals for the next
  pass, or the exception that ends \<^verbatim>\<open>play_game\<close>. The wall-clock readings are not
  modelled; nothing uses them.
\<close>

definition play_turn ::
  "services \<Rightarrow> bool \<Rightarrow> locals \<Rightarrow> bot \<Rightarrow> world \<Rightarrow> (error + locals) \<times> bot \<times> world" where
  "play_turn sv verbose l self w =
     (let visited1 = List.insert (current_topic l) (visited l) in
      case take_turn sv (current_topic l) visited1 self w of
        (Inl e, self1, w1) \<Rightarrow> (Inl e, self1, w1)
      | (Inr next_topic, self1, w1) \<Rightarrow>
     (case current_summary self1 of
        None \<Rightarrow> (Inl AttributeError, self1, w1)
      | Some summary \<Rightarrow>
     (case log_turn (turn_dict self1 l summary) self1 of
        (Inl e, self2) \<Rightarrow> (Inl e, self2, w1)
      | (Inr u, self2) \<Rightarrow>
     (case (if verbose
            then (case progress_block (turn_num l) (start_topic self2) (current_topic l)
                         next_topic (target_topic self2) of
                    Inl e \<Rightarrow> Inl e
                  | Inr block \<Rightarrow> Inr (self2\<lparr>printouts := printouts self2 @ [block]\<rparr>))
            else Inr self2) of
        Inl e \<Rightarrow> (Inl e, self2, w1)
      | Inr self3 \<Rightarrow>
          (Inr \<lparr>turn_num = turn_num l + 1, current_topic = next_topic, visited = visited1\<rparr>,
           self3, w1)))))"

text \<open>
  \<open>n\<close> passes through the loop body: \<open>Inr\<close> is the loop back at its head after \<open>n\<close>
  completed turns, \<open>Inl\<close> an exception raised in one of them.
\<close>

fun run_turns ::
  "nat \<Rightarrow> services \<Rightarrow> bool \<Rightarrow> locals \<Rightarrow> bot \<Rightarrow> world \<Rightarrow> (error + locals) \<times> bot \<times> world" where
  "run_turns 0 sv verbose l self w = (Inr l, self, w)"
| "run_turns (Suc n) sv verbose l self w =
     (case play_turn sv verbose l self w of
        (Inl e, self1, w1) \<Rightarrow> (Inl e, self1, w1)
      | (Inr l1, self1, w1) \<Rightarrow> run_turns n sv verbose l1 self1 w1)"

text \<open>Lines 222-229: the locals before the first pass.\<close>

definition first_locals :: "bot \<Rightarrow> locals" where
  "first_locals self = \<lparr>turn_num = 1, current_topic = PStr (start_topic self), visited = []\<rparr>"

text \<open>
  \<^verbatim>\<open>play_game(self, verbose)\<close> with fuel, since \<^verbatim>\<open>while True\<close> has no \<^verbatim>\<open>break\<close> and the
  method no \<^verbatim>\<open>return\<close>: \<open>None\<close> is still running when the fuel is used up,
  \<open>Some (Inl e)\<close> an exception, \<open>Some (Inr ())\<close> a normal return.
\<close>

definition play_game ::
  "nat \<Rightarrow> services \<Rightarrow> bool \<Rightarrow> bot \<Rightarrow> world \<Rightarrow> (error + unit) option \<times> bot \<times> world" where
  "play_game fuel sv verbose self w =
     (case run_turns fuel sv verbose (first_locals self) self w of
        (Inl e, self1, w1) \<Rightarrow> (Some (Inl e), self1, w1)
      | (Inr l, self1, w1) \<Rightarrow> (None, self1, w1))"

section \<open>What the specification says, for comparison\<close>



section \<open>A small encyclopedia to run the bot on\<close>

text \<open>
  Three pages: \<open>Test\<close> links to \<open>Exam\<close> and \<open>Holiday\<close>; \<open>Holiday\<close> links to
  \<open>Test\<close>, \<open>Christmas\<close> and \<open>Easter\<close>; \<open>Hub\<close> has twenty-five links before its link
  to \<open>Christmas\<close>. Any other title is a fault of the service. The language model answers
  every prompt with \<open>reply\<close>; the closest match is an exact match, if there is one.
\<close>

definition hub_links :: "string list" where
  "hub_links =
     [''L01'', ''L02'', ''L03'', ''L04'', ''L05'', ''L06'', ''L07'', ''L08'', ''L09'', ''L10'',
      ''L11'', ''L12'', ''L13'', ''L14'', ''L15'', ''L16'', ''L17'', ''L18'', ''L19'', ''L20'',
      ''L21'', ''L22'', ''L23'', ''L24'', ''L25'', ''Christmas'']"

definition demo_wiki :: "pyval \<Rightarrow> error + page" where
  "demo_wiki title =
     (if title = PStr ''Test'' then
        Inr \<lparr>get_page_summary = Inr ''An examination.'',
             validate_pages = Inr [''Exam'', ''Holiday'']\<rparr>
      else if title = PStr ''Holiday'' then
        Inr \<lparr>get_page_summary = Inr ''A day of rest.'',
             validate_pages = Inr [''Test'', ''Christmas'', ''Easter'']\<rparr>
      else if title = PStr ''Hub'' then
        Inr \<lparr>get_page_summary = Inr ''A page of links.'', validate_pages = Inr hub_links\<rparr>
      else if title = PStr ''Christmas'' then
        Inr \<lparr>get_page_summary = Inr ''A holiday in December.'', validate_pages = Inr [''Holiday'']\<rparr>
      else Inl (ServiceError ''no such page''))"

definition demo_services :: "string \<Rightarrow> services" where
  "demo_services reply =
     \<lparr>getpass = (\<lambda>prompt. ''nvapi-typed''),
      search_wiki = (\<lambda>query. Inr query),
      get_random_wiki_page = (\<lambda>n. Inr (if n = 0 then ''Test'' else ''Holiday'')),
      wiki_page = demo_wiki,
      invoke = (\<lambda>client earlier prompt. Inr reply),
      get_close_matches = (\<lambda>word possibilities. take 1 (filter (\<lambda>p. p = word) possibilities)),
      repr = (\<lambda>s. [CHR 0x27] @ s @ [CHR 0x27])\<rparr>"

definition demo_world :: world where
  "demo_world = \<lparr>environ = [''NVIDIA_API_KEY'' \<mapsto> ''nvapi-demo''], random_calls = 0, llm_log = []\<rparr>"

definition demo_bot :: bot where
  "demo_bot =
     \<lparr>llm = \<lparr>model = ''meta/llama3-70b-instruct'', api_key = ''nvapi-demo'', temperature = 1 / 10\<rparr>,
      memory = ''System'',
      game_log = new_game_log,
      printouts = [],
      start_topic = ''Test'',
      target_topic = ''Christmas'',
      current_summary = None\<rparr>"

section \<open>The candidate list\<close>



section \<open>Parsing the reply\<close>


lemma str_split_no_sep: "sep \<notin> set s \<Longrightarrow> str_split sep s = [s]"
  by (induction s) auto



lemma proposedPage_no_eq: "CHR ''='' \<notin> set content \<Longrightarrow> proposedPage content = Inl IndexError"
  by (simp add: proposedPage_def py_index_def str_split_no_sep)






section \<open>The turn engine\<close>

text \<open>Once the page, its summary and its links are there, the rest of \<^verbatim>\<open>take_turn\<close>.\<close>

lemma take_turn_to_candidates:
  assumes "wiki_page sv topic = Inr current_page"
    and "get_page_summary current_page = Inr summary"
    and "validate_pages current_page = Inr links"
  shows "take_turn sv topic seen self w =
    (let self1 = self\<lparr>current_summary := Some summary\<rparr>;
         ps = pages links seen in
     if target_topic self \<in> set ps
     then (Inr (PTuple [PStr (target_topic self), PInt 1]), self1, w)
     else
       (let prompt = format_template sv self1 topic ps;
            w1 = w\<lparr>llm_log := llm_log w @ [prompt]\<rparr> in
        case invoke sv (llm self) (llm_log w) prompt of
          Inl e \<Rightarrow> (Inl e, self1, w1)
        | Inr content \<Rightarrow>
            (case proposedPage content of
               Inl e \<Rightarrow> (Inl e, self1, w1)
             | Inr proposed \<Rightarrow>
                 (case most_similar sv proposed ps of
                    Inl e \<Rightarrow> (Inl e, self1, w1)
                  | Inr chosen \<Rightarrow> (Inr (PStr chosen), self1, w1)))))"
  using assms by (simp add: take_turn_def Let_def)

text \<open>
  C1. When the target topic is in the filtered, truncated candidate list, \<^verbatim>\<open>take_turn\<close>
  returns the target topic with confidence 1 (the source's literal \<^verbatim>\<open>1\<close>, equal to 1.0 in
  Python), and the language model is not invoked: whatever model is plugged in, the result
  is the same and the world, with its log of prompts, is unchanged.
\<close>

theorem take_turn_short_circuit:
  assumes "wiki_page sv topic = Inr current_page"
    and "get_page_summary current_page = Inr summary"
    and "validate_pages current_page = Inr links"
    and "target_topic self \<in> set (pages links seen)"
  shows "take_turn (sv\<lparr>invoke := any_model\<rparr>) topic seen self w =
           (Inr (PTuple [PStr (target_topic self), PInt 1]),
            self\<lparr>current_summary := Some summary\<rparr>, w)"
proof -
  have "wiki_page (sv\<lparr>invoke := any_model\<rparr>) topic = Inr current_page"
    using assms(1) by simp
  from take_turn_to_candidates [OF this assms(2) assms(3)] assms(4)
  show ?thesis by (simp add: Let_def)
qed

text \<open>C1 on the page \<open>Holiday\<close>, which links to the target \<open>Christmas\<close>.\<close>

theorem take_turn_short_circuit_witness:
  "take_turn (demo_services ''Next topic=Easter'') (PStr ''Holiday'')
     [PStr ''Holiday'', PStr ''Test''] demo_bot demo_world =
     (Inr (PTuple [PStr ''Christmas'', PInt 1]),
      demo_bot\<lparr>current_summary := Some ''A day of rest.''\<rparr>, demo_world)"
proof -
  let ?sv = "demo_services ''Next topic=Easter''"
  let ?page = "\<lparr>get_page_summary = Inr ''A day of rest.'',
                 validate_pages = Inr [''Test'', ''Christmas'', ''Easter'']\<rparr>"
  have p: "wiki_page ?sv (PStr ''Holiday'') = Inr ?page"
    by (simp add: demo_services_def demo_wiki_def)
  have s: "get_page_summary ?page = Inr ''A day of rest.''" by simp
  have l: "validate_pages ?page = Inr [''Test'', ''Christmas'', ''Easter'']" by simp
  have t: "target_topic demo_bot \<in>
             set (pages [''Test'', ''Christmas'', ''Easter''] [PStr ''Holiday'', PStr ''Test''])"
    by (simp add: demo_bot_def pages_def)
  have "?sv\<lparr>invoke := invoke ?sv\<rparr> = ?sv" by simp
  with take_turn_short_circuit [OF p s l t, of "invoke ?sv" demo_world]
  show ?thesis by (simp add: demo_bot_def)
qed

text \<open>The prompt does not read \<^verbatim>\<open>self.current_summary\<close>.\<close>

lemma format_template_current_summary [simp]:
  "format_template sv (self\<lparr>current_summary := x\<rparr>) topic ps = format_template sv self topic ps"
  by (simp add: format_template_def)

text \<open>
  C7. On the model-driven path (the target is not a candidate), a reply of the language
  model with no \<^verbatim>\<open>=\<close> in it makes \<^verbatim>\<open>take_turn\<close> fail with \<^verbatim>\<open>IndexError\<close> at the parsing
  step: no next topic is selected.
\<close>

theorem take_turn_reply_without_eq_fails:
  assumes "wiki_page sv topic = Inr current_page"
    and "get_page_summary current_page = Inr summary"
    and "validate_pages current_page = Inr links"
    and "target_topic self \<notin> set (pages links seen)"
    and "invoke sv (llm self) (llm_log w) (format_template sv self topic (pages links seen))
           = Inr content"
    and "CHR ''='' \<notin> set content"
  shows "take_turn sv topic seen self w =
           (Inl IndexError, self\<lparr>current_summary := Some summary\<rparr>,
            w\<lparr>llm_log := llm_log w @ [format_template sv self topic (pages links seen)]\<rparr>)"
  using take_turn_to_candidates [OF assms(1-3), of seen self w] assms(4,5)
    proposedPage_no_eq [OF assms(6)]
  by (simp add: Let_def)

text \<open>C7 on the page \<open>Test\<close> with the reply \<^verbatim>\<open>Holiday\<close>.\<close>

theorem take_turn_reply_without_eq_fails_witness:
  "take_turn (demo_services ''Holiday'') (PStr ''Test'') [PStr ''Test''] demo_bot demo_world =
     (Inl IndexError, demo_bot\<lparr>current_summary := Some ''An examination.''\<rparr>,
      demo_world\<lparr>llm_log :=
        [format_template (demo_services ''Holiday'') demo_bot (PStr ''Test'')
           [''Exam'', ''Holiday'']]\<rparr>)"
proof -
  let ?sv = "demo_services ''Holiday''"
  let ?page = "\<lparr>get_page_summary = Inr ''An examination.'',
                 validate_pages = Inr [''Exam'', ''Holiday'']\<rparr>"
  have p: "wiki_page ?sv (PStr ''Test'') = Inr ?page"
    by (simp add: demo_services_def demo_wiki_def)
  have s: "get_page_summary ?page = Inr ''An examination.''" by simp
  have l: "validate_pages ?page = Inr [''Exam'', ''Holiday'']" by simp
  have ps: "pages [''Exam'', ''Holiday''] [PStr ''Test''] = [''Exam'', ''Holiday'']"
    by (simp add: pages_def)
  have t: "target_topic demo_bot \<notin> set (pages [''Exam'', ''Holiday''] [PStr ''Test''])"
    unfolding ps by (simp add: demo_bot_def)
  have i: "invoke ?sv (llm demo_bot) (llm_log demo_world)
             (format_template ?sv demo_bot (PStr ''Test'') (pages [''Exam'', ''Holiday''] [PStr ''Test'']))
           = Inr ''Holiday''"
    by (simp add: demo_services_def)
  have n: "CHR ''='' \<notin> set ''Holiday''" by simp
  have "llm_log demo_world = []" by (simp add: demo_world_def)
  with take_turn_reply_without_eq_fails [OF p s l t i n] ps
  show ?thesis by simp
qed

text \<open>
  C10. \<^verbatim>\<open>take_turn\<close> truncates the unvisited valid links to the first 25 before it looks
  for the target. It returns the short-circuit pair exactly when the target is among those
  25, and then sends no prompt. Otherwise, also when the target is a later unvisited link,
  the language model is consulted: one prompt is sent, and the outcome of the call is what
  the model's answer to that prompt makes it (the model's fault, a parsing fault, a
  matching fault, or the candidate matched to the model's proposal).
\<close>

theorem short_circuit_only_within_first_25:
  assumes "wiki_page sv topic = Inr current_page"
    and "get_page_summary current_page = Inr summary"
    and "validate_pages current_page = Inr links"
  shows "(fst (take_turn sv topic seen self w) = Inr (PTuple [PStr (target_topic self), PInt 1]))
           = (target_topic self \<in> set (take 25 (filter (\<lambda>p. PStr p \<notin> set seen) links))) \<and>
         llm_log (snd (snd (take_turn sv topic seen self w))) =
           (if target_topic self \<in> set (take 25 (filter (\<lambda>p. PStr p \<notin> set seen) links))
            then llm_log w
            else llm_log w @
              [format_template sv self topic (take 25 (filter (\<lambda>p. PStr p \<notin> set seen) links))]) \<and>
         fst (take_turn sv topic seen self w) =
           (if target_topic self \<in> set (take 25 (filter (\<lambda>p. PStr p \<notin> set seen) links))
            then Inr (PTuple [PStr (target_topic self), PInt 1])
            else
              (case invoke sv (llm self) (llm_log w)
                      (format_template sv self topic
                         (take 25 (filter (\<lambda>p. PStr p \<notin> set seen) links))) of
                 Inl e \<Rightarrow> Inl e
               | Inr content \<Rightarrow>
                   (case proposedPage content of
                      Inl e \<Rightarrow> Inl e
                    | Inr proposed \<Rightarrow>
                        (case most_similar sv proposed
                                (take 25 (filter (\<lambda>p. PStr p \<notin> set seen) links)) of
                           Inl e \<Rightarrow> Inl e
                         | Inr chosen \<Rightarrow> Inr (PStr chosen)))))"
  using take_turn_to_candidates [OF assms, of seen self w]
  by (auto simp: Let_def pages_def split: sum.splits)

text \<open>
  C10 on \<open>Hub\<close>, whose link to the target is the twenty-sixth: the link is there, the
  short-circuit does not fire, one prompt has been sent, and the next topic is the one the
  model names: \<open>L07\<close> for one model, \<open>L08\<close> for another, and the fault of the parser for a
  model whose reply has no \<^verbatim>\<open>=\<close>.
\<close>

theorem short_circuit_only_within_first_25_witness:
  "''Christmas'' \<in> set (filter (\<lambda>p. PStr p \<notin> set [PStr ''Hub'']) hub_links) \<and>
   ''Christmas'' \<notin> set (take 25 (filter (\<lambda>p. PStr p \<notin> set [PStr ''Hub'']) hub_links)) \<and>
   fst (take_turn (demo_services ''Next topic=L07'') (PStr ''Hub'') [PStr ''Hub''] demo_bot demo_world)
     \<noteq> Inr (PTuple [PStr ''Christmas'', PInt 1]) \<and>
   length (llm_log (snd (snd (take_turn (demo_services ''Next topic=L07'') (PStr ''Hub'')
     [PStr ''Hub''] demo_bot demo_world)))) = 1 \<and>
   fst (take_turn (demo_services ''Next topic=L07'') (PStr ''Hub'') [PStr ''Hub''] demo_bot demo_world)
     = Inr (PStr ''L07'') \<and>
   fst (take_turn (demo_services ''Next topic=L08'') (PStr ''Hub'') [PStr ''Hub''] demo_bot demo_world)
     = Inr (PStr ''L08'') \<and>
   fst (take_turn (demo_services ''L08'') (PStr ''Hub'') [PStr ''Hub''] demo_bot demo_world)
     = Inl IndexError"
proof -
  let ?page = "\<lparr>get_page_summary = Inr ''A page of links.'', validate_pages = Inr hub_links\<rparr>"
  have p: "wiki_page (demo_services reply) (PStr ''Hub'') = Inr ?page" for reply
    by (simp add: demo_services_def demo_wiki_def)
  have s: "get_page_summary ?page = Inr ''A page of links.''" by simp
  have l: "validate_pages ?page = Inr hub_links" by simp
  have f: "filter (\<lambda>p. PStr p \<notin> set [PStr ''Hub'']) hub_links = hub_links"
    by (simp add: hub_links_def)
  have far: "''Christmas'' \<notin> set (take 25 hub_links)"
    by (simp add: hub_links_def)
  have near: "''Christmas'' \<in> set hub_links"
    by (simp add: hub_links_def)
  have t: "target_topic demo_bot = ''Christmas''" "llm_log demo_world = []"
    by (simp_all add: demo_bot_def demo_world_def)
  have i: "invoke (demo_services reply) = (\<lambda>client earlier prompt. Inr reply)" for reply
    by (simp add: demo_services_def)
  have pp: "proposedPage ''Next topic=L07'' = Inr ''L07''"
    "proposedPage ''Next topic=L08'' = Inr ''L08''" "proposedPage ''L08'' = Inl IndexError"
    by (simp_all add: proposedPage_def py_index_def)
  have ms: "most_similar (demo_services reply) ''L07'' (take 25 hub_links) = Inr ''L07''"
    "most_similar (demo_services reply) ''L08'' (take 25 hub_links) = Inr ''L08''" for reply
    by (simp_all add: most_similar_def py_index_def demo_services_def hub_links_def)
  note at_hub = short_circuit_only_within_first_25 [OF p s l, of _ "[PStr ''Hub'']" demo_bot demo_world,
    unfolded f t]
  from at_hub [of "''Next topic=L07''"] at_hub [of "''Next topic=L08''"] at_hub [of "''L08''"]
  show ?thesis unfolding f using far near by (simp add: i pp ms)
qed


lemma demo_page_Holiday:
  "wiki_page (demo_services reply) (PStr ''Holiday'') =
     Inr \<lparr>get_page_summary = Inr ''A day of rest.'',
          validate_pages = Inr [''Test'', ''Christmas'', ''Easter'']\<rparr>"
  by (simp add: demo_services_def demo_wiki_def)


lemma demo_take_turn_Holiday:
  "take_turn (demo_services reply) (PStr ''Holiday'') [PStr ''Holiday'', PStr ''Test''] demo_bot w =
     (Inr (PTuple [PStr ''Christmas'', PInt 1]),
      demo_bot\<lparr>current_summary := Some ''A day of rest.''\<rparr>, w)"
proof -
  have ps: "pages [''Test'', ''Christmas'', ''Easter''] [PStr ''Holiday'', PStr ''Test'']
              = [''Christmas'', ''Easter'']"
    by (simp add: pages_def)
  have t: "target_topic demo_bot = ''Christmas''" by (simp add: demo_bot_def)
  show ?thesis
    by (simp add: take_turn_to_candidates [OF demo_page_Holiday] ps t)
qed




section \<open>Construction\<close>

lemma init_success_distinct:
  assumes "init sv start target model_name temp w = (Inr b, w')"
  shows "start_topic b \<noteq> target_topic b"
  using assms
  by (auto simp: init_def split: prod.splits sum.splits if_splits)

text \<open>
  C6. Once the API key is there and both topics are resolved, construction fails with the
  assertion's message when the resolved topics are equal; when they differ it goes on to
  the last statement of the constructor (the fetch of the target's page) and yields the
  bot unless that fetch raises. Every bot that construction yields has a start topic
  different from its target topic.
\<close>

theorem init_checks_distinct_topics:
  "(\<forall>key w1 s t w2.
      nvidia_api_key sv w = (Inr key, w1) \<and> get_topics sv start target w1 = (Inr (s, t), w2) \<longrightarrow>
      init sv start target model_name temp w =
        (if s = t then (Inl (AssertionError same_topics_message), w2)
         else (case wiki_page sv (PStr t) of
                 Inl e \<Rightarrow> (Inl e, w2)
               | Inr target_page \<Rightarrow>
                   (Inr \<lparr>llm = \<lparr>model = model_name, api_key = key, temperature = temp\<rparr>,
                         memory = ''System'', game_log = new_game_log, printouts = [],
                         start_topic = s, target_topic = t, current_summary = None\<rparr>, w2)))) \<and>
   (\<forall>b w'. init sv start target model_name temp w = (Inr b, w') \<longrightarrow>
      start_topic b \<noteq> target_topic b)"
proof (intro conjI allI impI)
  fix key w1 s t w2
  assume "nvidia_api_key sv w = (Inr key, w1) \<and> get_topics sv start target w1 = (Inr (s, t), w2)"
  then show "init sv start target model_name temp w =
        (if s = t then (Inl (AssertionError same_topics_message), w2)
         else (case wiki_page sv (PStr t) of
                 Inl e \<Rightarrow> (Inl e, w2)
               | Inr target_page \<Rightarrow>
                   (Inr \<lparr>llm = \<lparr>model = model_name, api_key = key, temperature = temp\<rparr>,
                         memory = ''System'', game_log = new_game_log, printouts = [],
                         start_topic = s, target_topic = t, current_summary = None\<rparr>, w2)))"
    by (simp add: init_def)
next
  fix b w'
  assume "init sv start target model_name temp w = (Inr b, w')"
  then show "start_topic b \<noteq> target_topic b" by (rule init_success_distinct)
qed

lemma demo_nvidia_api_key:
  "nvidia_api_key (demo_services reply) demo_world = (Inr ''nvapi-demo'', demo_world)"
  by (simp add: nvidia_api_key_def demo_world_def startswith_def Let_def)

lemma demo_get_topics:
  "get_topics (demo_services reply) (Some (c # cs)) (Some (d # ds)) w = (Inr (c # cs, d # ds), w)"
  by (simp add: get_topics_def resolve_topic_def demo_services_def)

text \<open>C6 for \<open>Test\<close> to \<open>Christmas\<close> (a bot) and for \<open>Test\<close> to \<open>Test\<close> (the assertion).\<close>

theorem init_checks_distinct_topics_witness:
  "init (demo_services ''Next topic=Holiday'') (Some ''Test'') (Some ''Christmas'')
     ''meta/llama3-70b-instruct'' (1 / 10) demo_world = (Inr demo_bot, demo_world) \<and>
   start_topic demo_bot \<noteq> target_topic demo_bot \<and>
   init (demo_services ''Next topic=Holiday'') (Some ''Test'') (Some ''Test'')
     ''meta/llama3-70b-instruct'' (1 / 10) demo_world =
     (Inl (AssertionError same_topics_message), demo_world)"
proof -
  let ?sv = "demo_services ''Next topic=Holiday''"
  note k = demo_nvidia_api_key [of "''Next topic=Holiday''"]
  have g1: "get_topics ?sv (Some ''Test'') (Some ''Christmas'') demo_world
              = (Inr (''Test'', ''Christmas''), demo_world)"
    by (rule demo_get_topics)
  have g2: "get_topics ?sv (Some ''Test'') (Some ''Test'') demo_world
              = (Inr (''Test'', ''Test''), demo_world)"
    by (rule demo_get_topics)
  have w: "wiki_page ?sv (PStr ''Christmas'') =
             Inr \<lparr>get_page_summary = Inr ''A holiday in December.'', validate_pages = Inr [''Holiday'']\<rparr>"
    by (simp add: demo_services_def demo_wiki_def)
  note thm1 = init_checks_distinct_topics
    [of ?sv demo_world "Some ''Test''" "Some ''Christmas''" "''meta/llama3-70b-instruct''" "1 / 10"]
  note thm2 = init_checks_distinct_topics
    [of ?sv demo_world "Some ''Test''" "Some ''Test''" "''meta/llama3-70b-instruct''" "1 / 10"]
  have a: "init ?sv (Some ''Test'') (Some ''Christmas'') ''meta/llama3-70b-instruct'' (1 / 10) demo_world
             = (Inr demo_bot, demo_world)"
    using thm1 [THEN conjunct1, rule_format, OF conjI, OF k g1] w
    by (simp add: demo_bot_def)
  have b: "start_topic demo_bot \<noteq> target_topic demo_bot"
    using thm1 [THEN conjunct2, rule_format, OF a] .
  have c: "init ?sv (Some ''Test'') (Some ''Test'') ''meta/llama3-70b-instruct'' (1 / 10) demo_world
             = (Inl (AssertionError same_topics_message), demo_world)"
    using thm2 [THEN conjunct1, rule_format, OF conjI, OF k g2] by simp
  from a b c show ?thesis by simp
qed

section \<open>The game driver\<close>

text \<open>\<^verbatim>\<open>take_turn\<close> assigns \<^verbatim>\<open>self.current_summary\<close> and nothing else of the bot.\<close>

lemma take_turn_frame:
  assumes "take_turn sv topic seen self w = (r, self1, w1)"
  shows "game_log self1 = game_log self \<and> start_topic self1 = start_topic self \<and>
         target_topic self1 = target_topic self"
  using assms by (auto simp: take_turn_def Let_def split: sum.splits if_splits)

text \<open>Logging the turn's dictionary appends one entry to each of the five lists.\<close>

lemma log_turn_dict:
  assumes "log_turn (turn_dict self l summary) self = (Inr u, self2)"
  shows "\<exists>a b c d e.
           game_log self ''starting_topic'' = Some a \<and>
           game_log self ''target_topic'' = Some b \<and>
           game_log self ''turn'' = Some c \<and>
           game_log self ''current_topic'' = Some d \<and>
           game_log self ''current_summary'' = Some e \<and>
           self2 = self\<lparr>game_log := (game_log self)
             (''starting_topic'' \<mapsto> a @ [PStr (start_topic self)],
              ''target_topic'' \<mapsto> b @ [PStr (start_topic self)],
              ''turn'' \<mapsto> c @ [PInt (turn_num l)],
              ''current_topic'' \<mapsto> d @ [current_topic l],
              ''current_summary'' \<mapsto> e @ [PStr summary])\<rparr>"
  using assms by (auto simp: turn_dict_def split: option.splits)

text \<open>
  What a completed pass through the loop body leaves behind. The entry appended under
  \<^verbatim>\<open>'target_topic'\<close> is the start topic, as line 247 has it.
\<close>

lemma play_turn_completed:
  assumes "play_turn sv verbose l self w = (Inr l', self', w')"
  shows "\<exists>a b c d e summary.
           game_log self ''starting_topic'' = Some a \<and>
           game_log self ''target_topic'' = Some b \<and>
           game_log self ''turn'' = Some c \<and>
           game_log self ''current_topic'' = Some d \<and>
           game_log self ''current_summary'' = Some e \<and>
           game_log self' = (game_log self)
             (''starting_topic'' \<mapsto> a @ [PStr (start_topic self)],
              ''target_topic'' \<mapsto> b @ [PStr (start_topic self)],
              ''turn'' \<mapsto> c @ [PInt (turn_num l)],
              ''current_topic'' \<mapsto> d @ [current_topic l],
              ''current_summary'' \<mapsto> e @ [PStr summary]) \<and>
           start_topic self' = start_topic self \<and>
           target_topic self' = target_topic self \<and>
           turn_num l' = turn_num l + 1"
proof -
  let ?seen = "List.insert (current_topic l) (visited l)"
  obtain r self1 w1 where tt: "take_turn sv (current_topic l) ?seen self w = (r, self1, w1)"
    by (cases "take_turn sv (current_topic l) ?seen self w") auto
  note frame = take_turn_frame [OF tt]
  from assms tt obtain next_topic where r: "r = Inr next_topic"
    by (cases r) (simp_all add: play_turn_def Let_def)
  from assms tt r obtain summary where cs: "current_summary self1 = Some summary"
    by (cases "current_summary self1") (simp_all add: play_turn_def Let_def)
  obtain lr self2 where lt: "log_turn (turn_dict self1 l summary) self1 = (lr, self2)"
    by (cases "log_turn (turn_dict self1 l summary) self1") auto
  from assms tt r cs lt obtain u where lr: "lr = Inr u"
    by (cases lr) (simp_all add: play_turn_def Let_def)
  from log_turn_dict [OF lt [unfolded lr]] obtain a b c d e where
    old: "game_log self1 ''starting_topic'' = Some a" "game_log self1 ''target_topic'' = Some b"
      "game_log self1 ''turn'' = Some c" "game_log self1 ''current_topic'' = Some d"
      "game_log self1 ''current_summary'' = Some e"
    and self2: "self2 = self1\<lparr>game_log := (game_log self1)
             (''starting_topic'' \<mapsto> a @ [PStr (start_topic self1)],
              ''target_topic'' \<mapsto> b @ [PStr (start_topic self1)],
              ''turn'' \<mapsto> c @ [PInt (turn_num l)],
              ''current_topic'' \<mapsto> d @ [current_topic l],
              ''current_summary'' \<mapsto> e @ [PStr summary])\<rparr>"
    by blast
  have fin: "game_log self' = game_log self2 \<and> start_topic self' = start_topic self2 \<and>
             target_topic self' = target_topic self2 \<and> turn_num l' = turn_num l + 1"
    using assms tt r cs lt lr
    by (auto simp: play_turn_def Let_def split: if_splits sum.splits)
  have "game_log self' = (game_log self)
             (''starting_topic'' \<mapsto> a @ [PStr (start_topic self)],
              ''target_topic'' \<mapsto> b @ [PStr (start_topic self)],
              ''turn'' \<mapsto> c @ [PInt (turn_num l)],
              ''current_topic'' \<mapsto> d @ [current_topic l],
              ''current_summary'' \<mapsto> e @ [PStr summary])"
    using fin frame unfolding self2 by simp
  moreover have "start_topic self' = start_topic self" "target_topic self' = target_topic self"
    using fin frame unfolding self2 by simp_all
  ultimately show ?thesis
    using old fin frame by (intro exI [of _ a] exI [of _ b] exI [of _ c] exI [of _ d]
      exI [of _ e] exI [of _ summary]) simp
qed


text \<open>The same, one list at a time.\<close>

lemma dom_new_game_log:
  "dom new_game_log =
     {''starting_topic'', ''target_topic'', ''turn'', ''current_topic'', ''current_summary''}"
  by (auto simp: new_game_log_def split: if_splits)

lemma play_turn_column:
  assumes "play_turn sv verbose l self w = (Inr l', self', w')"
  shows "turn_num l' = turn_num l + 1"
    and "key \<in> dom new_game_log \<Longrightarrow>
           \<exists>xs v. game_log self key = Some xs \<and> game_log self' key = Some (xs @ [v]) \<and>
                  (key = ''turn'' \<longrightarrow> v = PInt (turn_num l))"
    and "key \<notin> dom new_game_log \<Longrightarrow> game_log self' key = game_log self key"
proof -
  from play_turn_completed [OF assms] obtain a b c d e summary where
    old: "game_log self ''starting_topic'' = Some a" "game_log self ''target_topic'' = Some b"
      "game_log self ''turn'' = Some c" "game_log self ''current_topic'' = Some d"
      "game_log self ''current_summary'' = Some e"
    and new: "game_log self' = (game_log self)
             (''starting_topic'' \<mapsto> a @ [PStr (start_topic self)],
              ''target_topic'' \<mapsto> b @ [PStr (start_topic self)],
              ''turn'' \<mapsto> c @ [PInt (turn_num l)],
              ''current_topic'' \<mapsto> d @ [current_topic l],
              ''current_summary'' \<mapsto> e @ [PStr summary])"
    and num: "turn_num l' = turn_num l + 1"
    by blast
  show "turn_num l' = turn_num l + 1" by (rule num)
  show "\<exists>xs v. game_log self key = Some xs \<and> game_log self' key = Some (xs @ [v]) \<and>
                  (key = ''turn'' \<longrightarrow> v = PInt (turn_num l))"
    if "key \<in> dom new_game_log"
    using that old unfolding new dom_new_game_log by auto
  show "game_log self' key = game_log self key" if "key \<notin> dom new_game_log"
    using that unfolding new dom_new_game_log by simp
qed

lemma turns_from:
  "(PInt a :: pyval) # map (\<lambda>i. PInt (a + 1 + int i)) [0..<n] = map (\<lambda>i. PInt (a + int i)) [0..<Suc n]"
proof -
  have "map (\<lambda>i. PInt (a + int i)) [0..<Suc n] =
          PInt (a + int 0) # map (\<lambda>i. PInt (a + int (Suc i))) [0..<n]"
    by (rule map_upt_Suc)
  then show ?thesis by (simp add: add.assoc add.commute)
qed

text \<open>After \<open>n\<close> completed turns each list is \<open>n\<close> entries longer, by induction on \<open>n\<close>.\<close>

lemma run_turns_column:
  assumes "run_turns n sv verbose l self w = (Inr l', self', w')"
    and "key \<in> dom new_game_log"
    and "game_log self key = Some xs"
  shows "\<exists>new. game_log self' key = Some (xs @ new) \<and> length new = n \<and>
           (key = ''turn'' \<longrightarrow> new = map (\<lambda>i. PInt (turn_num l + int i)) [0..<n])"
  using assms
proof (induction n arbitrary: l self w xs)
  case 0
  then show ?case by simp
next
  case (Suc n)
  obtain r self1 w1 where step: "play_turn sv verbose l self w = (r, self1, w1)"
    by (cases "play_turn sv verbose l self w") auto
  with Suc.prems(1) obtain l1 where r: "r = Inr l1"
    by (cases r) simp_all
  from Suc.prems(1) step r have rest: "run_turns n sv verbose l1 self1 w1 = (Inr l', self', w')"
    by simp
  note turn = play_turn_column [OF step [unfolded r]]
  from turn(2) [OF Suc.prems(2)] Suc.prems(3) obtain v where
    v: "game_log self1 key = Some (xs @ [v])" "key = ''turn'' \<longrightarrow> v = PInt (turn_num l)"
    by auto
  from Suc.IH [OF rest Suc.prems(2) v(1)] obtain new where
    new: "game_log self' key = Some ((xs @ [v]) @ new)" "length new = n"
      "key = ''turn'' \<longrightarrow> new = map (\<lambda>i. PInt (turn_num l1 + int i)) [0..<n]"
    by blast
  have "key = ''turn'' \<longrightarrow> v # new = map (\<lambda>i. PInt (turn_num l + int i)) [0..<Suc n]"
    using v(2) new(3) turn(1) turns_from [of "turn_num l" n] by simp
  with new(1,2) show ?case
    by (intro exI [of _ "v # new"]) simp
qed

lemma run_turns_other_keys:
  assumes "run_turns n sv verbose l self w = (Inr l', self', w')"
    and "key \<notin> dom new_game_log"
  shows "game_log self' key = game_log self key"
  using assms
proof (induction n arbitrary: l self w)
  case 0
  then show ?case by simp
next
  case (Suc n)
  obtain r self1 w1 where step: "play_turn sv verbose l self w = (r, self1, w1)"
    by (cases "play_turn sv verbose l self w") auto
  with Suc.prems(1) obtain l1 where r: "r = Inr l1"
    by (cases r) simp_all
  from Suc.prems(1) step r have rest: "run_turns n sv verbose l1 self1 w1 = (Inr l', self', w')"
    by simp
  from Suc.IH [OF rest Suc.prems(2)] play_turn_column(3) [OF step [unfolded r] Suc.prems(2)]
  show ?case by simp
qed

text \<open>Running \<open>m + k\<close> turns is running \<open>m\<close> turns and then \<open>k\<close> more.\<close>

lemma run_turns_add:
  "run_turns (m + k) sv verbose l self w =
     (case run_turns m sv verbose l self w of
        (Inl e, self1, w1) \<Rightarrow> (Inl e, self1, w1)
      | (Inr l1, self1, w1) \<Rightarrow> run_turns k sv verbose l1 self1 w1)"
proof (induction m arbitrary: l self w)
  case 0
  then show ?case by simp
next
  case (Suc m)
  show ?case
  proof (cases "play_turn sv verbose l self w")
    case (fields r self1 w1)
    then show ?thesis
      by (cases r) (simp_all add: Suc.IH)
  qed
qed

text \<open>
  C9. \<^verbatim>\<open>play_game\<close> on a bot whose log is the constructor's: after \<open>n\<close> completed turns the
  log has its five lists and no other, each with exactly \<open>n\<close> entries; the recorded turn
  numbers are 1, 2, ..., \<open>n\<close>; and the entries are in turn order: for every \<open>m \<le> n\<close>, the
  log as it stood after \<open>m\<close> turns is the first \<open>m\<close> entries of each list.
\<close>

theorem game_log_after_completed_turns:
  assumes "game_log self = new_game_log"
    and "run_turns n sv verbose (first_locals self) self w = (Inr l', self', w')"
  shows "dom (game_log self') = dom new_game_log \<and>
         (\<forall>key entries. game_log self' key = Some entries \<longrightarrow> length entries = n) \<and>
         game_log self' ''turn'' = Some (map (\<lambda>i. PInt (int i)) [1..<Suc n]) \<and>
         (\<forall>m\<le>n. \<exists>lm selfm wm.
            run_turns m sv verbose (first_locals self) self w = (Inr lm, selfm, wm) \<and>
            (\<forall>key. game_log selfm key = map_option (take m) (game_log self' key)))"
proof -
  have fresh: "game_log self key = Some []" if "key \<in> dom new_game_log" for key
    using that unfolding assms(1) by (auto simp: new_game_log_def split: if_splits)
  have column: "\<exists>new. game_log self' key = Some new \<and> length new = n \<and>
           (key = ''turn'' \<longrightarrow> new = map (\<lambda>i. PInt (1 + int i)) [0..<n])"
    if "key \<in> dom new_game_log" for key
    using run_turns_column [OF assms(2) that fresh [OF that]] by (simp add: first_locals_def)
  have other: "game_log self' key = None" if "key \<notin> dom new_game_log" for key
    using run_turns_other_keys [OF assms(2) that] that unfolding assms(1) by auto
  have d: "dom (game_log self') = dom new_game_log"
  proof (intro set_eqI iffI)
    fix key assume k: "key \<in> dom (game_log self')"
    show "key \<in> dom new_game_log"
    proof (rule ccontr)
      assume "key \<notin> dom new_game_log"
      from other [OF this] k show False by auto
    qed
  next
    fix key assume "key \<in> dom new_game_log"
    from column [OF this] show "key \<in> dom (game_log self')" by auto
  qed
  have len: "\<forall>key entries. game_log self' key = Some entries \<longrightarrow> length entries = n"
  proof (intro allI impI)
    fix key entries assume e: "game_log self' key = Some entries"
    then have "key \<in> dom new_game_log" using d by auto
    from column [OF this] e show "length entries = n" by auto
  qed
  have "map (\<lambda>i. PInt (1 + int i)) [0..<n] = map (\<lambda>i. PInt (int i)) (map Suc [0..<n])"
    by (simp add: add.commute)
  also have "map Suc [0..<n] = [1..<Suc n]"
    by (simp add: map_Suc_upt)
  finally have turns: "game_log self' ''turn'' = Some (map (\<lambda>i. PInt (int i)) [1..<Suc n])"
    using column [of "''turn''"] by (auto simp: dom_new_game_log)
  have order: "\<forall>m\<le>n. \<exists>lm selfm wm.
            run_turns m sv verbose (first_locals self) self w = (Inr lm, selfm, wm) \<and>
            (\<forall>key. game_log selfm key = map_option (take m) (game_log self' key))"
  proof (intro allI impI)
    fix m assume "m \<le> n"
    then have n: "n = m + (n - m)" by simp
    obtain r selfm wm where first: "run_turns m sv verbose (first_locals self) self w = (r, selfm, wm)"
      by (cases "run_turns m sv verbose (first_locals self) self w") auto
    from assms(2) have split:
      "(case run_turns m sv verbose (first_locals self) self w of
          (Inl e, self1, w1) \<Rightarrow> (Inl e, self1, w1)
        | (Inr l1, self1, w1) \<Rightarrow> run_turns (n - m) sv verbose l1 self1 w1) = (Inr l', self', w')"
      using run_turns_add [of m "n - m" sv verbose "first_locals self" self w] n by simp
    with first obtain lm where r: "r = Inr lm"
      by (cases r) simp_all
    from split first r have rest: "run_turns (n - m) sv verbose lm selfm wm = (Inr l', self', w')"
      by simp
    have "game_log selfm key = map_option (take m) (game_log self' key)" for key
    proof (cases "key \<in> dom new_game_log")
      case True
      from run_turns_column [OF first [unfolded r] True fresh [OF True]] obtain early where
        early: "game_log selfm key = Some early" "length early = m" by auto
      from run_turns_column [OF rest True early(1)] obtain late where
        "game_log self' key = Some (early @ late)" by auto
      with early show ?thesis by simp
    next
      case False
      from run_turns_other_keys [OF first [unfolded r] False] False
      have "game_log selfm key = None" unfolding assms(1) by auto
      with other [OF False] show ?thesis by simp
    qed
    with first r show "\<exists>lm selfm wm.
            run_turns m sv verbose (first_locals self) self w = (Inr lm, selfm, wm) \<and>
            (\<forall>key. game_log selfm key = map_option (take m) (game_log self' key))"
      by blast
  qed
  from d len turns order show ?thesis by blast
qed


text \<open>The definitions to unfold when a game on the small encyclopedia is evaluated.\<close>

lemmas demo_eval =
  play_turn_def take_turn_def Let_def demo_services_def demo_wiki_def demo_bot_def
  demo_world_def first_locals_def pages_def proposedPage_def py_index_def most_similar_def
  turn_dict_def new_game_log_def progress_block_def

lemma demo_two_turns_quiet:
  "fst (run_turns 2 (demo_services ''Next topic=Holiday'') False (first_locals demo_bot)
          demo_bot demo_world) =
     Inr \<lparr>turn_num = 3, current_topic = PTuple [PStr ''Christmas'', PInt 1],
          visited = [PStr ''Holiday'', PStr ''Test'']\<rparr>"
  by (simp add: numeral_2_eq_2 demo_eval)

text \<open>C9 after two completed turns (\<open>Test\<close>, then \<open>Holiday\<close>) with \<^verbatim>\<open>verbose=False\<close>.\<close>

theorem game_log_after_completed_turns_witness:
  "game_log demo_bot = new_game_log \<and>
   fst (run_turns 2 (demo_services ''Next topic=Holiday'') False (first_locals demo_bot)
          demo_bot demo_world) =
     Inr \<lparr>turn_num = 3, current_topic = PTuple [PStr ''Christmas'', PInt 1],
          visited = [PStr ''Holiday'', PStr ''Test'']\<rparr> \<and>
   dom (game_log (fst (snd (run_turns 2 (demo_services ''Next topic=Holiday'') False
          (first_locals demo_bot) demo_bot demo_world)))) = dom new_game_log \<and>
   game_log (fst (snd (run_turns 2 (demo_services ''Next topic=Holiday'') False
          (first_locals demo_bot) demo_bot demo_world))) ''turn'' = Some [PInt 1, PInt 2]"
proof -
  let ?run = "run_turns 2 (demo_services ''Next topic=Holiday'') False (first_locals demo_bot)
                demo_bot demo_world"
  let ?l = "\<lparr>turn_num = 3, current_topic = PTuple [PStr ''Christmas'', PInt 1],
             visited = [PStr ''Holiday'', PStr ''Test'']\<rparr>"
  have fresh: "game_log demo_bot = new_game_log" by (simp add: demo_bot_def)
  have run: "?run = (Inr ?l, fst (snd ?run), snd (snd ?run))"
    using demo_two_turns_quiet by (cases ?run) simp
  have "map (\<lambda>i. PInt (int i)) [1..<Suc 2] = [PInt 1, PInt 2]"
    by (simp add: upt_rec)
  with game_log_after_completed_turns [OF fresh run] fresh demo_two_turns_quiet
  show ?thesis by simp
qed

text \<open>
  \<^verbatim>\<open>while True\<close> has no \<^verbatim>\<open>break\<close>: whatever the fuel, \<^verbatim>\<open>play_game\<close> has not returned normally.
\<close>

lemma play_game_never_returns:
  "fst (play_game fuel sv verbose self w) \<noteq> Some (Inr ())"
  by (simp add: play_game_def split: prod.splits sum.splits)

text \<open>
  C8 fails on the code. Start \<open>Test\<close>, target \<open>Christmas\<close>; the second turn, from
  \<open>Holiday\<close>, selects the target. The loop does not stop there: with \<^verbatim>\<open>verbose=True\<close> the
  method ends in that same turn with \<^verbatim>\<open>AttributeError\<close> (the returned tuple has no
  \<^verbatim>\<open>replace\<close>); with \<^verbatim>\<open>verbose=False\<close> it is back at the loop head for turn 3 with the
  tuple as current topic, and the third turn asks the encyclopedia for that tuple.
\<close>

theorem play_game_goes_on_after_target:
  "fst (take_turn (demo_services ''Next topic=Holiday'') (PStr ''Holiday'')
          [PStr ''Holiday'', PStr ''Test''] demo_bot demo_world)
     = Inr (PTuple [PStr ''Christmas'', PInt 1]) \<and>
   fst (play_game 2 (demo_services ''Next topic=Holiday'') True demo_bot demo_world)
     = Some (Inl AttributeError) \<and>
   fst (run_turns 2 (demo_services ''Next topic=Holiday'') False (first_locals demo_bot)
          demo_bot demo_world)
     = Inr \<lparr>turn_num = 3, current_topic = PTuple [PStr ''Christmas'', PInt 1],
            visited = [PStr ''Holiday'', PStr ''Test'']\<rparr> \<and>
   fst (play_game 2 (demo_services ''Next topic=Holiday'') False demo_bot demo_world) = None \<and>
   fst (play_game 3 (demo_services ''Next topic=Holiday'') False demo_bot demo_world)
     = Some (Inl (ServiceError ''no such page''))"
proof -
  have "fst (play_game 2 (demo_services ''Next topic=Holiday'') True demo_bot demo_world)
          = Some (Inl AttributeError)"
    by (simp add: play_game_def numeral_2_eq_2 demo_eval)
  moreover have "fst (play_game 2 (demo_services ''Next topic=Holiday'') False demo_bot demo_world)
          = None"
    by (simp add: play_game_def numeral_2_eq_2 demo_eval)
  moreover have "fst (play_game 3 (demo_services ''Next topic=Holiday'') False demo_bot demo_world)
          = Some (Inl (ServiceError ''no such page''))"
    by (simp add: play_game_def numeral_3_eq_3 demo_eval)
  ultimately show ?thesis
    using demo_two_turns_quiet by (simp add: demo_take_turn_Holiday)
qed

text \<open>
  C2 fails on the code. Start \<open>Test\<close>, target \<open>Christmas\<close>: after the first completed turn
  the list under \<^verbatim>\<open>'target_topic'\<close> holds \<open>Test\<close>, the start topic, not the target.
\<close>

theorem logged_target_topic_is_start_topic:
  "start_topic demo_bot = ''Test'' \<and> target_topic demo_bot = ''Christmas'' \<and>
   fst (run_turns 1 (demo_services ''Next topic=Holiday'') True (first_locals demo_bot)
          demo_bot demo_world) =
     Inr \<lparr>turn_num = 2, current_topic = PStr ''Holiday'', visited = [PStr ''Test'']\<rparr> \<and>
   game_log (fst (snd (run_turns 1 (demo_services ''Next topic=Holiday'') True
     (first_locals demo_bot) demo_bot demo_world))) ''target_topic'' = Some [PStr ''Test''] \<and>
   game_log (fst (snd (run_turns 1 (demo_services ''Next topic=Holiday'') True
     (first_locals demo_bot) demo_bot demo_world))) ''starting_topic'' = Some [PStr ''Test'']"
  by (simp add: demo_eval)

end
